theory Spec2Isabelle
  imports Complex_Main "HOL-Library.Word" "HOL-Library.Multiset" "HOL-Library.Product_Lexorder"
begin

section \<open>JavaScript numbers\<close>

text \<open>
  A JavaScript number is modelled as an exact real or one of the three special values of
  IEEE 754.  The operations of this section are exact: they are used where the source
  computes with byte counts and slot numbers, which doubles represent without rounding.
  Rounded arithmetic is the subject of the section on floating-point arithmetic.  The
  model has a single zero; every zero divisor that occurs below is a positive zero in the
  source (a byte count, or the logarithm of 1).
\<close>

datatype jsnum = Num real | PosInf | NegInf | NaN

fun js_neg :: "jsnum \<Rightarrow> jsnum" where
  "js_neg (Num x) = Num (- x)"
| "js_neg PosInf = NegInf"
| "js_neg NegInf = PosInf"
| "js_neg NaN = NaN"

fun js_add :: "jsnum \<Rightarrow> jsnum \<Rightarrow> jsnum" where
  "js_add NaN _ = NaN"
| "js_add _ NaN = NaN"
| "js_add (Num x) (Num y) = Num (x + y)"
| "js_add PosInf NegInf = NaN"
| "js_add NegInf PosInf = NaN"
| "js_add PosInf _ = PosInf"
| "js_add NegInf _ = NegInf"
| "js_add _ PosInf = PosInf"
| "js_add _ NegInf = NegInf"

fun js_mul :: "jsnum \<Rightarrow> jsnum \<Rightarrow> jsnum" where
  "js_mul NaN _ = NaN"
| "js_mul _ NaN = NaN"
| "js_mul (Num x) (Num y) = Num (x * y)"
| "js_mul PosInf (Num y) = (if y = 0 then NaN else if 0 < y then PosInf else NegInf)"
| "js_mul NegInf (Num y) = (if y = 0 then NaN else if 0 < y then NegInf else PosInf)"
| "js_mul (Num x) PosInf = (if x = 0 then NaN else if 0 < x then PosInf else NegInf)"
| "js_mul (Num x) NegInf = (if x = 0 then NaN else if 0 < x then NegInf else PosInf)"
| "js_mul PosInf PosInf = PosInf"
| "js_mul NegInf NegInf = PosInf"
| "js_mul PosInf NegInf = NegInf"
| "js_mul NegInf PosInf = NegInf"

fun js_div :: "jsnum \<Rightarrow> jsnum \<Rightarrow> jsnum" where
  "js_div NaN _ = NaN"
| "js_div _ NaN = NaN"
| "js_div (Num x) (Num y) =
     (if y = 0 then (if x = 0 then NaN else if 0 < x then PosInf else NegInf)
      else Num (x / y))"
| "js_div (Num x) PosInf = Num 0"
| "js_div (Num x) NegInf = Num 0"
| "js_div PosInf (Num y) = (if 0 \<le> y then PosInf else NegInf)"
| "js_div NegInf (Num y) = (if 0 \<le> y then NegInf else PosInf)"
| "js_div PosInf PosInf = NaN"
| "js_div PosInf NegInf = NaN"
| "js_div NegInf PosInf = NaN"
| "js_div NegInf NegInf = NaN"

fun js_floor :: "jsnum \<Rightarrow> jsnum" where
  "js_floor (Num x) = Num (of_int \<lfloor>x\<rfloor>)"
| "js_floor PosInf = PosInf"
| "js_floor NegInf = NegInf"
| "js_floor NaN = NaN"

fun js_lt :: "jsnum \<Rightarrow> jsnum \<Rightarrow> bool" where
  "js_lt NaN _ = False"
| "js_lt _ NaN = False"
| "js_lt (Num x) (Num y) = (x < y)"
| "js_lt NegInf NegInf = False"
| "js_lt NegInf _ = True"
| "js_lt PosInf _ = False"
| "js_lt (Num x) PosInf = True"
| "js_lt (Num x) NegInf = False"




text \<open>\<open>x || d\<close> on an option that is absent, or present with a number.\<close>

definition or_default :: "nat option \<Rightarrow> nat \<Rightarrow> nat" where
  "or_default v d = (case v of None \<Rightarrow> d | Some n \<Rightarrow> if n = 0 then d else n)"

section \<open>Metadata values\<close>

text \<open>Values of the free-form objects that callers attach to vectors and memories.\<close>

datatype jsval =
    JNumber real
  | JString string
  | JBool bool
  | JNull
  | JArray "jsval list"
  | JObject "(string \<times> jsval) list"

section \<open>MemoryEfficientVectorStore\<close>

text \<open>
  The store keeps every vector in one \<open>Float32Array\<close> laid over an \<open>ArrayBuffer\<close> of
  \<open>maxMemoryBytes\<close> bytes.  The typed array is a map from index to value whose domain is
  the index range of the array: a read outside it gives \<open>undefined\<close>, a write outside it
  is ignored.  The field \<open>metadata\<close> is the \<open>Map\<close> from vector id to the stored entry, an
  object from property name to value.
\<close>

record 'id store =
  maxMemoryBytes :: nat
  dimensions :: nat
  vectorSize :: nat
  maxVectors :: jsnum
  vectors :: "nat \<rightharpoonup> real"
  metadata :: "'id \<rightharpoonup> (string \<rightharpoonup> jsval)"
  freeSlots :: "nat list"
  nextSlot :: nat

datatype store_error =
    DimensionMismatch nat  \<comment> \<open>\<open>Vector must have N dimensions\<close>\<close>
  | StoreFull  \<comment> \<open>\<open>Vector store is full - consider increasing memory allocation\<close>\<close>

text \<open>
  The constructor, for a whole number of megabytes and a whole number of dimensions.
  \<open>maxVectors\<close> is \<open>Math.floor(maxMemoryBytes / vectorSize)\<close>, which is \<open>Infinity\<close> or
  \<open>NaN\<close> when \<open>dimensions\<close> is 0.
\<close>

definition MemoryEfficientVectorStore :: "nat \<Rightarrow> nat \<Rightarrow> 'id store" where
  "MemoryEfficientVectorStore maxMemoryMB dims =
     (let bytes = maxMemoryMB * 1024 * 1024;
          vsize = dims * 4
      in \<lparr> maxMemoryBytes = bytes,
           dimensions = dims,
           vectorSize = vsize,
           maxVectors = js_floor (js_div (Num (real bytes)) (Num (real vsize))),
           vectors = (\<lambda>i. if i < bytes div 4 then Some 0 else None),
           metadata = Map.empty,
           freeSlots = [],
           nextSlot = 0 \<rparr>)"

definition typed_array_set :: "(nat \<rightharpoonup> real) \<Rightarrow> nat \<Rightarrow> real \<Rightarrow> (nat \<rightharpoonup> real)" where
  "typed_array_set arr k v = (if k \<in> dom arr then arr(k \<mapsto> v) else arr)"

text \<open>
  \<open>addVector(vector, id, metadata)\<close>.  \<open>fround\<close> is the rounding of a double to a 32-bit
  float done by the store into the typed array and \<open>now\<close> the value of \<open>Date.now()\<close>.
  The result pairs what the call returns or throws with the store as the call leaves it.
  In the stored entry the caller's metadata is spread after \<open>slotIndex\<close> and before
  \<open>timestamp\<close>, so it overrides the former and is overridden by the latter.
\<close>

definition copy_vector :: "(real \<Rightarrow> real) \<Rightarrow> real list \<Rightarrow> nat \<Rightarrow> nat \<Rightarrow> (nat \<rightharpoonup> real) \<Rightarrow> (nat \<rightharpoonup> real)" where
  "copy_vector fround vector startIndex dims arr =
     fold (\<lambda>i a. typed_array_set a (startIndex + i) (fround (vector ! i))) [0..<dims] arr"

definition store_entry :: "nat \<Rightarrow> (string \<rightharpoonup> jsval) \<Rightarrow> int \<Rightarrow> (string \<rightharpoonup> jsval)" where
  "store_entry slotIndex meta now =
     ([''slotIndex'' \<mapsto> JNumber (real slotIndex)] ++ meta)(''timestamp'' \<mapsto> JNumber (real_of_int now))"

definition write_slot ::
  "(real \<Rightarrow> real) \<Rightarrow> int \<Rightarrow> real list \<Rightarrow> 'id \<Rightarrow> (string \<rightharpoonup> jsval) \<Rightarrow> nat \<Rightarrow> 'id store \<Rightarrow> 'id store" where
  "write_slot fround now vector ident meta slotIndex st =
     st \<lparr> vectors := copy_vector fround vector (slotIndex * dimensions st) (dimensions st) (vectors st),
          metadata := (metadata st)(ident \<mapsto> store_entry slotIndex meta now) \<rparr>"

definition addVector ::
  "(real \<Rightarrow> real) \<Rightarrow> int \<Rightarrow> real list \<Rightarrow> 'id \<Rightarrow> (string \<rightharpoonup> jsval) \<Rightarrow> 'id store
     \<Rightarrow> (store_error + nat) \<times> 'id store" where
  "addVector fround now vector ident meta st =
     (if length vector \<noteq> dimensions st then (Inl (DimensionMismatch (dimensions st)), st)
      else if length (freeSlots st) > 0 then
        (let slotIndex = last (freeSlots st);
             st1 = st \<lparr> freeSlots := butlast (freeSlots st) \<rparr>
         in (Inr slotIndex, write_slot fround now vector ident meta slotIndex st1))
      else if js_lt (Num (real (nextSlot st))) (maxVectors st) then
        (let slotIndex = nextSlot st;
             st1 = st \<lparr> nextSlot := nextSlot st + 1 \<rparr>
         in (Inr slotIndex, write_slot fround now vector ident meta slotIndex st1))
      else (Inl StoreFull, st))"





text \<open>
  What the constructor establishes about the derived fields, and what every later call
  keeps: the byte size of a vector and the capacity computed from it.
\<close>

definition store_wf :: "'id store \<Rightarrow> bool" where
  "store_wf st \<longleftrightarrow>
     vectorSize st = dimensions st * 4 \<and>
     maxVectors st = js_floor (js_div (Num (real (maxMemoryBytes st))) (Num (real (vectorSize st))))"


section \<open>Floating-point arithmetic\<close>

text \<open>
  Similarity values, scores and embedding entries are doubles, and their operations round.
  The rounding is a parameter: an arithmetic \<open>ar\<close> says to which number the exact
  result of an operation on finite operands is rounded (\<open>ar_round\<close>, which may
  overflow to an infinity) and what the library functions \<open>Math.log\<close>,
  \<open>Math.exp\<close>, \<open>Math.sin\<close> and \<open>Math.cos\<close> return on finite
  arguments.  The cases with an infinite or undefined operand are those of IEEE 754.  A
  statement proved for every \<open>ar\<close> holds for the doubles of a JavaScript engine
  in particular; \<open>exact_arith\<close> is the arithmetic that rounds nothing.  A decimal
  literal of the program, such as \<open>0.7\<close>, denotes the rounded value
  \<open>ar_round ar (7 / 10)\<close>.
\<close>

record arith =
  ar_round :: "real \<Rightarrow> jsnum"
  ar_ln :: "real \<Rightarrow> jsnum"
  ar_exp :: "real \<Rightarrow> jsnum"
  ar_sin :: "real \<Rightarrow> jsnum"
  ar_cos :: "real \<Rightarrow> jsnum"

definition exact_arith :: arith where
  "exact_arith =
     \<lparr> ar_round = Num, ar_ln = (\<lambda>x. Num (ln x)), ar_exp = (\<lambda>x. Num (exp x)),
       ar_sin = (\<lambda>x. Num (sin x)), ar_cos = (\<lambda>x. Num (cos x)) \<rparr>"

definition fl_add :: "arith \<Rightarrow> jsnum \<Rightarrow> jsnum \<Rightarrow> jsnum" where
  "fl_add ar a b =
     (case (a, b) of (Num x, Num y) \<Rightarrow> ar_round ar (x + y) | _ \<Rightarrow> js_add a b)"

definition fl_sub :: "arith \<Rightarrow> jsnum \<Rightarrow> jsnum \<Rightarrow> jsnum" where
  "fl_sub ar a b =
     (case (a, b) of (Num x, Num y) \<Rightarrow> ar_round ar (x - y) | _ \<Rightarrow> js_add a (js_neg b))"

definition fl_mul :: "arith \<Rightarrow> jsnum \<Rightarrow> jsnum \<Rightarrow> jsnum" where
  "fl_mul ar a b =
     (case (a, b) of (Num x, Num y) \<Rightarrow> ar_round ar (x * y) | _ \<Rightarrow> js_mul a b)"

definition fl_div :: "arith \<Rightarrow> jsnum \<Rightarrow> jsnum \<Rightarrow> jsnum" where
  "fl_div ar a b =
     (case (a, b) of
        (Num x, Num y) \<Rightarrow> if y = 0 then js_div a b else ar_round ar (x / y)
      | _ \<Rightarrow> js_div a b)"

definition fl_sqrt :: "arith \<Rightarrow> jsnum \<Rightarrow> jsnum" where
  "fl_sqrt ar a =
     (case a of
        Num x \<Rightarrow> if x < 0 then NaN else ar_round ar (sqrt x)
      | PosInf \<Rightarrow> PosInf
      | NegInf \<Rightarrow> NaN
      | NaN \<Rightarrow> NaN)"



definition fl_sin :: "arith \<Rightarrow> jsnum \<Rightarrow> jsnum" where
  "fl_sin ar a = (case a of Num x \<Rightarrow> ar_sin ar x | _ \<Rightarrow> NaN)"

definition fl_cos :: "arith \<Rightarrow> jsnum \<Rightarrow> jsnum" where
  "fl_cos ar a = (case a of Num x \<Rightarrow> ar_cos ar x | _ \<Rightarrow> NaN)"

text \<open>The value of a decimal literal \<open>n / d\<close> of the program.\<close>

definition literal :: "arith \<Rightarrow> real \<Rightarrow> jsnum" where
  "literal ar x = ar_round ar x"

section \<open>Vector similarity\<close>

text \<open>
  Modelled from the spec: the module \<open>utils/vectorSimilarity.js\<close> that the server
  loads is not part of the sources (only a sample class in the design document is), so the
  functions follow section 4.2 of the specification: pure functions over vector views, given
  the dimensionality \<open>D\<close>.  A vector view gives the component at each index; the
  components are accumulated in ascending order of the index.
\<close>

type_synonym vector_view = "nat \<Rightarrow> jsnum"

text \<open>Modelled from the spec: \<open>dot(a, b) = \<Sum> a\<^sub>i \<cdot> b\<^sub>i\<close>.\<close>

definition dot :: "arith \<Rightarrow> nat \<Rightarrow> vector_view \<Rightarrow> vector_view \<Rightarrow> jsnum" where
  "dot ar D a b = foldl (\<lambda>s i. fl_add ar s (fl_mul ar (a i) (b i))) (Num 0) [0..<D]"

text \<open>
  Modelled from the spec: the magnitude of a vector is \<open>\<surd>\<Sum> x\<^sub>i\<^sup>2\<close> (section 4.1).
\<close>

definition magnitude :: "arith \<Rightarrow> nat \<Rightarrow> vector_view \<Rightarrow> jsnum" where
  "magnitude ar D v = fl_sqrt ar (dot ar D v v)"

text \<open>
  Modelled from the spec: \<open>cosine(a, b, |a|, |b|) = dot(a, b) / (|a| \<cdot> |b|)\<close>; if
  either magnitude is 0, it yields 0.
\<close>

definition cosine :: "arith \<Rightarrow> nat \<Rightarrow> vector_view \<Rightarrow> vector_view \<Rightarrow> jsnum \<Rightarrow> jsnum \<Rightarrow> jsnum" where
  "cosine ar D a b magA magB =
     (if magA = Num 0 \<or> magB = Num 0 then Num 0
      else fl_div ar (dot ar D a b) (fl_mul ar magA magB))"

text \<open>
  Modelled from the spec: \<open>cosineSimilarity(a, b)\<close> is the cosine of two vectors
  with their magnitudes computed from the vectors themselves.
\<close>

definition cosineSimilarity :: "arith \<Rightarrow> nat \<Rightarrow> vector_view \<Rightarrow> vector_view \<Rightarrow> jsnum" where
  "cosineSimilarity ar D a b = cosine ar D a b (magnitude ar D a) (magnitude ar D b)"

text \<open>The view of a list of numbers; an index past its end reads as undefined.\<close>

definition view_of :: "real list \<Rightarrow> vector_view" where
  "view_of xs i = (if i < length xs then Num (xs ! i) else NaN)"

section \<open>The HNSW index\<close>










section \<open>The persona memory manager\<close>


text \<open>
  Modelled from the spec: the memory types \<open>conversation\<close>, \<open>fact\<close>,
  \<open>preference\<close>, \<open>context\<close> and \<open>system\<close>.
\<close>

datatype memory_type = Conversation | Fact | Preference | ContextMemory | SystemMemory
















text \<open>
  Modelled from the spec: the results are sorted descending by final score.  The position
  of a score in the ascending order of the keys below is its position in the descending
  order of the scores; a score that is not a number comes last, and candidates with equal
  scores keep the order in which the search returned them.
\<close>

fun rank_key :: "jsnum \<Rightarrow> int \<times> real" where
  "rank_key PosInf = (- 1, 0)"
| "rank_key (Num x) = (0, - x)"
| "rank_key NegInf = (1, 0)"
| "rank_key NaN = (2, 0)"











section \<open>DatabaseRepository\<close>

text \<open>
  The tables of the SQLite database that the operations below read or write, each a
  list of rows.  Columns hold what the schema declares: \<open>TEXT\<close> is a string, \<open>INTEGER\<close>
  and \<open>BOOLEAN\<close> are integers, and a column without \<open>NOT NULL\<close> that the code leaves
  empty is an option.  JSON columns are kept as their text.
\<close>

record user_row =
  u_id :: string
  u_email :: string
  u_password_hash :: string
  u_role :: string
  u_created_at :: int
  u_updated_at :: "int option"
  u_last_login :: "int option"
  u_is_active :: int
  u_failed_login_attempts :: int
  u_locked_until :: "int option"

record api_key_row =
  ak_id :: string
  ak_user_id :: string
  ak_key_hash :: string
  ak_name :: string
  ak_permissions :: string
  ak_rate_limit :: int
  ak_created_at :: int
  ak_updated_at :: "int option"
  ak_expires_at :: "int option"
  ak_last_used :: "int option"
  ak_is_active :: int
  ak_usage_count :: int

record vector_metadata_row =
  vm_id :: string
  vm_dimensions :: int
  vm_persona_id :: "string option"
  vm_content_type :: "string option"
  vm_source :: "string option"
  vm_tags :: string
  vm_custom_metadata :: string
  vm_created_at :: int
  vm_updated_at :: "int option"

record persona_row =
  p_id :: string
  p_user_id :: string
  p_name :: string
  p_description :: "string option"
  p_system_prompt :: "string option"
  p_config :: string
  p_max_memory_size :: int
  p_memory_decay_time :: int
  p_created_at :: int
  p_updated_at :: "int option"
  p_is_active :: int

record database =
  users :: "user_row list"
  api_keys :: "api_key_row list"
  vector_metadata :: "vector_metadata_row list"
  personas :: "persona_row list"

text \<open>
  \<open>deletePersona(id)\<close> runs
  \<open>UPDATE personas SET is_active = 0, updated_at = ? WHERE id = ?\<close>
  and returns the number of rows changed; the result pairs it with the database after
  the statement.
\<close>

definition soft_delete_row :: "int \<Rightarrow> string \<Rightarrow> persona_row \<Rightarrow> persona_row" where
  "soft_delete_row now ident r =
     (if p_id r = ident then r \<lparr> p_is_active := 0, p_updated_at := Some now \<rparr> else r)"

definition deletePersona :: "int \<Rightarrow> string \<Rightarrow> database \<Rightarrow> nat \<times> database" where
  "deletePersona now ident db =
     (length (filter (\<lambda>r. p_id r = ident) (personas db)),
      db \<lparr> personas := map (soft_delete_row now ident) (personas db) \<rparr>)"

text \<open>
  \<open>getApiKeyByHash(keyHash)\<close>: the first row of
  \<open>SELECT ak.*, u.email, u.role as user_role FROM api_keys ak JOIN users u ON ak.user_id = u.id
   WHERE ak.key_hash = ? AND ak.is_active = 1 AND u.is_active = 1
   AND (ak.expires_at IS NULL OR ak.expires_at > ?)\<close>,
  with \<open>Date.now()\<close> for the second parameter.  A non-empty \<open>permissions\<close> text is then
  parsed; \<open>json_parse\<close> is \<open>JSON.parse\<close>, which throws on text that is not JSON.
\<close>

record 'j api_key_result =
  r_key :: api_key_row
  r_email :: string
  r_user_role :: string
  r_permissions :: "'j option"

datatype db_error = JsonSyntaxError

definition api_key_join :: "int \<Rightarrow> string \<Rightarrow> database \<Rightarrow> (api_key_row \<times> user_row) list" where
  "api_key_join now keyHash db =
     filter (\<lambda>(ak, u). ak_user_id ak = u_id u \<and> ak_key_hash ak = keyHash \<and> ak_is_active ak = 1 \<and>
                       u_is_active u = 1 \<and>
                       (case ak_expires_at ak of None \<Rightarrow> True | Some e \<Rightarrow> e > now))
            (List.product (api_keys db) (users db))"

definition getApiKeyByHash ::
  "(string \<Rightarrow> 'j option) \<Rightarrow> int \<Rightarrow> string \<Rightarrow> database \<Rightarrow> db_error + 'j api_key_result option" where
  "getApiKeyByHash json_parse now keyHash db =
     (case api_key_join now keyHash db of
        [] \<Rightarrow> Inr None
      | (ak, u) # _ \<Rightarrow>
          (if ak_permissions ak = [] then
             Inr (Some \<lparr> r_key = ak, r_email = u_email u, r_user_role = u_role u,
                         r_permissions = None \<rparr>)
           else case json_parse (ak_permissions ak) of
                  None \<Rightarrow> Inl JsonSyntaxError
                | Some perms \<Rightarrow>
                    Inr (Some \<lparr> r_key = ak, r_email = u_email u, r_user_role = u_role u,
                                r_permissions = Some perms \<rparr>)))"

text \<open>Example rows.\<close>

definition persona_p1 :: persona_row where
  "persona_p1 =
     \<lparr> p_id = ''p1'', p_user_id = ''u1'', p_name = ''P'', p_description = None,
       p_system_prompt = None, p_config = ''{}'', p_max_memory_size = 1000,
       p_memory_decay_time = 604800000, p_created_at = 1, p_updated_at = Some 1,
       p_is_active = 1 \<rparr>"

definition memory_of_p1 :: vector_metadata_row where
  "memory_of_p1 =
     \<lparr> vm_id = ''m1'', vm_dimensions = 1536, vm_persona_id = Some ''p1'',
       vm_content_type = Some ''memory'', vm_source = None, vm_tags = ''[]'',
       vm_custom_metadata = ''{}'', vm_created_at = 2, vm_updated_at = Some 2 \<rparr>"

definition inactive_user :: user_row where
  "inactive_user =
     \<lparr> u_id = ''u1'', u_email = ''a@b.c'', u_password_hash = ''h'', u_role = ''user'',
       u_created_at = 1, u_updated_at = None, u_last_login = None, u_is_active = 0,
       u_failed_login_attempts = 0, u_locked_until = None \<rparr>"

definition active_user :: user_row where
  "active_user = inactive_user \<lparr> u_is_active := 1 \<rparr>"

definition key_row_k1 :: api_key_row where
  "key_row_k1 =
     \<lparr> ak_id = ''k1'', ak_user_id = ''u1'', ak_key_hash = ''hash1'', ak_name = ''key'',
       ak_permissions = ''[]'', ak_rate_limit = 1000, ak_created_at = 1,
       ak_updated_at = Some 1, ak_expires_at = Some 2000, ak_last_used = None,
       ak_is_active = 1, ak_usage_count = 0 \<rparr>"

definition example_db :: database where
  "example_db =
     \<lparr> users = [active_user], api_keys = [key_row_k1], vector_metadata = [memory_of_p1],
       personas = [persona_p1] \<rparr>"

section \<open>LocalTransformersProvider\<close>

text \<open>
  A JavaScript string is a sequence of UTF-16 code units; \<open>charCodeAt\<close> reads one of
  them.  Model names are plain strings.  Numbers that the code keeps whole (hashes, the
  seed, indices) are integers, which doubles represent exactly in the range that occurs;
  the entries of an embedding are doubles, computed in the arithmetic \<open>ar\<close>.
\<close>

type_synonym jsstring = "16 word list"

text \<open>\<open>ToInt32\<close>, the conversion that \<open><<\<close> and \<open>&\<close> apply to their operands and result.\<close>

definition toInt32 :: "int \<Rightarrow> int" where
  "toInt32 x = sint (word_of_int x :: 32 word)"

text \<open>
  \<open>hashString\<close>: for every code unit \<open>hash = ((hash << 5) - hash) + char\<close> and then
  \<open>hash = hash & hash\<close>; the result is \<open>Math.abs(hash)\<close>.
\<close>

definition hash_step :: "16 word \<Rightarrow> int \<Rightarrow> int" where
  "hash_step c hash = toInt32 ((toInt32 (hash * 2 ^ 5) - hash) + int (unat c))"

definition hashString :: "jsstring \<Rightarrow> int" where
  "hashString str = \<bar>fold hash_step str 0\<bar>"

record model_config =
  mc_dimensions :: nat
  mc_maxLength :: nat

record provider =
  model :: string
  provider_dimensions :: nat
  supportsDimensions :: bool
  supportsNormalization :: bool
  isLoaded :: bool
  supportedModels :: "string list"
  modelConfigs :: "string \<rightharpoonup> model_config"

definition LocalTransformersProvider :: "string option \<Rightarrow> nat option \<Rightarrow> provider" where
  "LocalTransformersProvider opt_model opt_dimensions =
     \<lparr> model = (case opt_model of
                  None \<Rightarrow> ''all-MiniLM-L6-v2''
                | Some m \<Rightarrow> if m = [] then ''all-MiniLM-L6-v2'' else m),
       provider_dimensions = or_default opt_dimensions 1536,
       supportsDimensions = True,
       supportsNormalization = True,
       isLoaded = False,
       supportedModels =
         [''all-MiniLM-L6-v2'', ''all-mpnet-base-v2'',
          ''sentence-transformers/paraphrase-MiniLM-L6-v2'', ''openai-compatible-1536''],
       modelConfigs =
         [''all-MiniLM-L6-v2'' \<mapsto> \<lparr> mc_dimensions = 1536, mc_maxLength = 512 \<rparr>,
          ''all-mpnet-base-v2'' \<mapsto> \<lparr> mc_dimensions = 1536, mc_maxLength = 512 \<rparr>,
          ''sentence-transformers/paraphrase-MiniLM-L6-v2''
            \<mapsto> \<lparr> mc_dimensions = 1536, mc_maxLength = 512 \<rparr>,
          ''openai-compatible-1536'' \<mapsto> \<lparr> mc_dimensions = 1536, mc_maxLength = 8191 \<rparr>] \<rparr>"

definition loadModel :: "string \<Rightarrow> provider \<Rightarrow> provider" where
  "loadModel modelName p =
     p \<lparr> model := modelName,
         provider_dimensions :=
           (case modelConfigs p modelName of
              None \<Rightarrow> 1536
            | Some c \<Rightarrow> if mc_dimensions c = 0 then 1536 else mc_dimensions c),
         isLoaded := True \<rparr>"

text \<open>The code units that \<open>\s\<close> matches: white space and line terminators.\<close>

definition js_whitespace :: "16 word \<Rightarrow> bool" where
  "js_whitespace c \<longleftrightarrow>
     unat c \<in> {9, 10, 11, 12, 13, 32, 160, 5760, 8232, 8233, 8239, 8287, 12288, 65279}
     \<or> (8192 \<le> unat c \<and> unat c \<le> 8202)"

text \<open>
  \<open>split(/\s+/)\<close>: the pieces between the maximal runs of white space; a run at the start
  or at the end gives an empty piece there, and the empty string gives one empty piece.
  \<open>cur\<close> holds the piece being read, in reverse.
\<close>

function split_ws :: "jsstring \<Rightarrow> jsstring \<Rightarrow> jsstring list" where
  "split_ws cur [] = [rev cur]"
| "split_ws cur (c # cs) =
     (if js_whitespace c then rev cur # split_ws [] (dropWhile js_whitespace cs)
      else split_ws (c # cur) cs)"
  by pat_completeness auto
termination
  by (relation "measure (\<lambda>(cur, cs). length cs)") (auto simp: length_dropWhile_le less_Suc_eq_le)

text \<open>
  The property names that the object \<open>modelConfigs\<close> inherits from \<open>Object.prototype\<close>.
  Reading one of them gives a function (or, for \<open>__proto__\<close>, the prototype object); each
  is truthy and has no property \<open>dimensions\<close>.
\<close>

definition object_prototype_names :: "string list" where
  "object_prototype_names =
     [''constructor'', ''hasOwnProperty'', ''isPrototypeOf'', ''propertyIsEnumerable'',
      ''toLocaleString'', ''toString'', ''valueOf'', ''__proto__'', ''__defineGetter__'',
      ''__defineSetter__'', ''__lookupGetter__'', ''__lookupSetter__'']"

datatype config_value = OwnConfig model_config | InheritedMember

text \<open>\<open>this.modelConfigs[name]\<close>; \<open>None\<close> is \<open>undefined\<close>.\<close>

definition get_config :: "provider \<Rightarrow> string \<Rightarrow> config_value option" where
  "get_config p name =
     (case modelConfigs p name of
        Some c \<Rightarrow> Some (OwnConfig c)
      | None \<Rightarrow> if name \<in> set object_prototype_names then Some InheritedMember else None)"

text \<open>\<open>config.dimensions\<close>; \<open>None\<close> is \<open>undefined\<close>.\<close>

fun config_dimensions :: "config_value \<Rightarrow> nat option" where
  "config_dimensions (OwnConfig c) = Some (mc_dimensions c)"
| "config_dimensions InheritedMember = None"

text \<open>
  An array of numbers as the function builds it.  An element is a number or \<open>undefined\<close>
  (\<open>None\<close>).  An assignment to the index \<open>NaN\<close> does not touch the elements: it sets the
  property named \<open>NaN\<close> of the array object, and the value it stores there is always
  \<open>NaN\<close>; \<open>nan_property\<close> says whether that property has been set.
\<close>

record js_array =
  elems :: "jsnum option list"
  nan_property :: bool

text \<open>\<open>ToNumber\<close> of an element: \<open>undefined\<close> becomes \<open>NaN\<close>.\<close>

fun to_number :: "jsnum option \<Rightarrow> jsnum" where
  "to_number None = NaN"
| "to_number (Some x) = x"

text \<open>
  \<open>x % dimensions\<close> for a whole number \<open>x \<ge> 0\<close>: it is \<open>NaN\<close> (\<open>None\<close>) when
  \<open>dimensions\<close> is \<open>undefined\<close> or 0.
\<close>

fun js_mod :: "int \<Rightarrow> nat option \<Rightarrow> nat option" where
  "js_mod x None = None"
| "js_mod x (Some d) = (if d = 0 then None else Some (nat (x mod int d)))"

text \<open>
  \<open>embedding[idx] += v\<close>.  An index past the end extends the array, the elements in between
  reading as \<open>undefined\<close>.
\<close>

fun add_at :: "arith \<Rightarrow> js_array \<Rightarrow> nat option \<Rightarrow> jsnum \<Rightarrow> js_array" where
  "add_at ar embedding None v = embedding \<lparr> nan_property := True \<rparr>"
| "add_at ar embedding (Some idx) v =
     (let es = elems embedding @ replicate (Suc idx - length (elems embedding)) None
      in embedding \<lparr> elems := es[idx := Some (fl_add ar (to_number (es ! idx)) v)] \<rparr>)"

text \<open>
  The first loop: \<open>seed = (seed * 9301 + 49297) % 233280\<close> and
  \<open>embedding[i] = (seed / 233280 - 0.5) * 0.1\<close>, for \<open>n\<close> entries.
\<close>

definition next_seed :: "int \<Rightarrow> int" where
  "next_seed seed = (seed * 9301 + 49297) mod 233280"

definition seed_entry :: "arith \<Rightarrow> int \<Rightarrow> jsnum" where
  "seed_entry ar seed =
     fl_mul ar
       (fl_sub ar (fl_div ar (Num (real_of_int seed)) (Num 233280)) (literal ar (1 / 2)))
       (literal ar (1 / 10))"

fun seed_values :: "arith \<Rightarrow> nat \<Rightarrow> int \<Rightarrow> jsnum list" where
  "seed_values ar 0 seed = []"
| "seed_values ar (Suc n) seed =
     (let seed' = next_seed seed in seed_entry ar seed' # seed_values ar n seed')"

text \<open>
  \<open>new Array(dimensions)\<close> followed by the first loop.  \<open>new Array(undefined)\<close> is the array
  \<open>[undefined]\<close>, and the loop \<open>for (i = 0; i < undefined; i++)\<close> does not run.
\<close>

definition seeded_array :: "arith \<Rightarrow> nat option \<Rightarrow> int \<Rightarrow> js_array" where
  "seeded_array ar dims seed =
     \<lparr> elems = (case dims of None \<Rightarrow> [None] | Some d \<Rightarrow> map Some (seed_values ar d seed)),
       nan_property = False \<rparr>"

text \<open>
  The features of one word, at position \<open>wordIndex\<close> of the word list.  The loop runs to
  \<open>Math.min(word.length, dimensions)\<close>, which is \<open>NaN\<close> when \<open>dimensions\<close> is
  \<open>undefined\<close>: then it does not run.
\<close>

definition word_features :: "arith \<Rightarrow> nat option \<Rightarrow> nat \<times> jsstring \<Rightarrow> js_array \<Rightarrow> js_array" where
  "word_features ar dims iw embedding =
     (let wordIndex = fst iw; word = snd iw; wordHash = hashString word;
          bound = (case dims of None \<Rightarrow> 0 | Some d \<Rightarrow> min (length word) d)
      in fold (\<lambda>i emb.
                 add_at ar emb (js_mod (wordHash + int i * int wordIndex) dims)
                   (fl_div ar (Num (real (unat (word ! (i mod length word))))) (Num 10000)))
              [0..<bound] embedding)"

text \<open>The features of the bigrams of the list of single characters.\<close>

definition bigram_features :: "arith \<Rightarrow> nat option \<Rightarrow> jsstring list \<Rightarrow> js_array \<Rightarrow> js_array" where
  "bigram_features ar dims chars embedding =
     fold (\<lambda>i emb.
             (let bigram = chars ! i @ chars ! (i + 1);
                  bigramHash = hashString bigram
              in add_at ar emb (js_mod bigramHash dims) (literal ar (1 / 100))))
          [0..<length chars - 1] embedding"

text \<open>
  The last loop, which adds a sine and a cosine to every entry; it does not run when
  \<open>dimensions\<close> is \<open>undefined\<close>.
\<close>

definition positional_step :: "arith \<Rightarrow> nat \<Rightarrow> nat \<Rightarrow> nat \<Rightarrow> nat \<Rightarrow> js_array \<Rightarrow> js_array" where
  "positional_step ar d textLength wordCount i emb =
     (let pos = fl_div ar (Num (real i)) (Num (real d));
          emb1 = add_at ar emb (Some i)
                   (fl_mul ar
                      (fl_sin ar (fl_div ar (fl_mul ar pos (Num (real textLength))) (Num 100)))
                      (literal ar (5 / 100)))
      in add_at ar emb1 (Some i)
           (fl_mul ar
              (fl_cos ar (fl_div ar (fl_mul ar pos (Num (real wordCount))) (Num 10)))
              (literal ar (5 / 100))))"

definition positional_features :: "arith \<Rightarrow> nat option \<Rightarrow> nat \<Rightarrow> nat \<Rightarrow> js_array \<Rightarrow> js_array" where
  "positional_features ar dims textLength wordCount embedding =
     (case dims of
        None \<Rightarrow> embedding
      | Some d \<Rightarrow> fold (positional_step ar d textLength wordCount) [0..<d] embedding)"

datatype embed_error =
    TypeError  \<comment> \<open>reading \<open>dimensions\<close> of an undefined configuration\<close>
  | RangeError  \<comment> \<open>\<open>new Array\<close> of a length that is not below \<open>2\<^sup>3\<^sup>2\<close>\<close>
  | TextRequired  \<comment> \<open>\<open>Text input is required and must be a string\<close>\<close>

text \<open>
  The three feature passes after the first loop, for the text, its lower-case form and the
  dimensions read from the configuration.
\<close>

definition feature_passes :: "arith \<Rightarrow> nat option \<Rightarrow> jsstring \<Rightarrow> jsstring \<Rightarrow> js_array \<Rightarrow> js_array" where
  "feature_passes ar dims text lower embedding0 =
     (let words = split_ws [] lower;
          chars = map (\<lambda>c. [c]) lower;
          embedding1 = fold (word_features ar dims) (enumerate 0 words) embedding0;
          embedding2 = bigram_features ar dims chars embedding1
      in positional_features ar dims (length text) (length words) embedding2)"

text \<open>
  \<open>generateDeterministicEmbedding(text, model)\<close> on the provider \<open>p\<close>.  \<open>toLowerCase\<close> is the
  method of that name of JavaScript strings.
\<close>

definition generateDeterministicEmbedding ::
  "arith \<Rightarrow> provider \<Rightarrow> (jsstring \<Rightarrow> jsstring) \<Rightarrow> jsstring \<Rightarrow> string \<Rightarrow> embed_error + js_array" where
  "generateDeterministicEmbedding ar p toLowerCase text mdl =
     (case (case get_config p mdl of
              Some c \<Rightarrow> Some c
            | None \<Rightarrow> get_config p ''all-MiniLM-L6-v2'') of
        None \<Rightarrow> Inl TypeError
      | Some config \<Rightarrow>
          (let dims = config_dimensions config
           in if (case dims of None \<Rightarrow> False | Some d \<Rightarrow> 2 ^ 32 \<le> d) then Inl RangeError
              else Inr (feature_passes ar dims text (toLowerCase text)
                          (seeded_array ar dims (hashString text)))))"

text \<open>
  \<open>normalizeVector\<close>: the vector itself when its magnitude is 0, and otherwise a new array
  of the elements divided by the magnitude.
\<close>

definition normalizeVector :: "arith \<Rightarrow> js_array \<Rightarrow> js_array" where
  "normalizeVector ar vector =
     (let magnitude = fl_sqrt ar
            (foldl (\<lambda>sum val. fl_add ar sum (fl_mul ar (to_number val) (to_number val)))
               (Num 0) (elems vector))
      in if magnitude = Num 0 then vector
         else \<lparr> elems = map (\<lambda>val. Some (fl_div ar (to_number val) magnitude)) (elems vector),
                nan_property = False \<rparr>)"

text \<open>\<open>estimateTokens\<close>: \<open>Math.ceil(text.length / 4)\<close>.\<close>

definition estimateTokens :: "jsstring \<Rightarrow> nat" where
  "estimateTokens text = (length text + 3) div 4"

text \<open>
  The options of \<open>generateEmbedding\<close>, each of them absent or given, and its result.  The
  method reads the clock twice: \<open>startTime\<close> on entry and \<open>endTime\<close> when it builds the
  result, whose \<open>processingTime\<close> is their difference.
\<close>

record embed_options =
  eo_model :: "string option"
  eo_normalize :: "bool option"
  eo_maxLength :: "nat option"

record embedding_result =
  er_vector :: js_array
  er_model :: string
  er_promptTokens :: nat
  er_totalTokens :: nat
  er_provider :: string
  er_textLength :: nat
  er_truncated :: bool
  er_processingTime :: int

definition generateEmbedding ::
  "arith \<Rightarrow> int \<Rightarrow> int \<Rightarrow> provider \<Rightarrow> (jsstring \<Rightarrow> jsstring) \<Rightarrow> jsstring \<Rightarrow> embed_options \<Rightarrow>
   embed_error + embedding_result" where
  "generateEmbedding ar startTime endTime p toLowerCase text options =
     (let mdl = (case eo_model options of None \<Rightarrow> model p | Some m \<Rightarrow> m);
          normalize = (case eo_normalize options of None \<Rightarrow> True | Some b \<Rightarrow> b);
          maxLength = (case eo_maxLength options of None \<Rightarrow> 512 | Some n \<Rightarrow> n)
      in if text = [] then Inl TextRequired
         else
           (let truncatedText = (if length text > maxLength then take maxLength text else text)
            in case generateDeterministicEmbedding ar p toLowerCase truncatedText mdl of
                 Inl e \<Rightarrow> Inl e
               | Inr embedding \<Rightarrow>
                   Inr \<lparr> er_vector = (if normalize then normalizeVector ar embedding else embedding),
                         er_model = mdl,
                         er_promptTokens = estimateTokens truncatedText,
                         er_totalTokens = estimateTokens truncatedText,
                         er_provider = ''local-transformers'',
                         er_textLength = length text,
                         er_truncated = (length text > maxLength),
                         er_processingTime = endTime - startTime \<rparr>))"

text \<open>
  A provider as the program can have it: constructed with some options, with any number of
  models loaded afterwards.
\<close>

definition provider_after :: "string option \<Rightarrow> nat option \<Rightarrow> string list \<Rightarrow> provider" where
  "provider_after opt_model opt_dimensions loads =
     fold loadModel loads (LocalTransformersProvider opt_model opt_dimensions)"

text \<open>The table of model configurations that the constructor builds.\<close>

definition standard_configs :: "string \<rightharpoonup> model_config" where
  "standard_configs = modelConfigs (LocalTransformersProvider None None)"

text \<open>An array of \<open>d\<close> elements, all of them numbers, without a property \<open>NaN\<close>.\<close>

definition full :: "nat \<Rightarrow> js_array \<Rightarrow> bool" where
  "full d a \<longleftrightarrow> length (elems a) = d \<and> None \<notin> set (elems a) \<and> \<not> nan_property a"

text \<open>Example options: an inherited property name as model, and no normalisation.\<close>

definition example_options :: embed_options where
  "example_options =
     \<lparr> eo_model = Some ''constructor'', eo_normalize = Some False, eo_maxLength = None \<rparr>"


section \<open>Properties of the arithmetic\<close>

lemma exact_arith_sel:
  "ar_round exact_arith x = Num x" "ar_ln exact_arith x = Num (ln x)"
  "ar_exp exact_arith x = Num (exp x)" "ar_sin exact_arith x = Num (sin x)"
  "ar_cos exact_arith x = Num (cos x)"
  by (simp_all add: exact_arith_def)


section \<open>Properties of MemoryEfficientVectorStore\<close>

lemma constructor_wf: "store_wf (MemoryEfficientVectorStore mb d)"
  by (simp add: store_wf_def MemoryEfficientVectorStore_def Let_def)

lemma maxVectors_pos_dims:
  assumes "store_wf st" "0 < dimensions st"
  shows "maxVectors st = Num (real (maxMemoryBytes st div (dimensions st * 4)))"
proof -
  have "\<lfloor>real (maxMemoryBytes st) / real (dimensions st * 4)\<rfloor>
          = int (maxMemoryBytes st div (dimensions st * 4))"
    by (metis floor_divide_of_nat_eq)
  with assms show ?thesis by (simp add: store_wf_def)
qed


text \<open>
  C5.  A vector whose length differs from the configured dimensionality is rejected with
  the dimension-mismatch error, and the store the call leaves behind is the store it
  found: buffer, metadata map, free-slot list and next-slot counter are all unchanged.
\<close>

theorem addVector_dimension_mismatch:
  "length vector \<noteq> dimensions st \<Longrightarrow>
     addVector fround now vector ident meta st = (Inl (DimensionMismatch (dimensions st)), st)"
  by (simp add: addVector_def)

theorem addVector_dimension_mismatch_witness:
  "length [1::real] \<noteq> dimensions (MemoryEfficientVectorStore 1 2 :: nat store) \<and>
   addVector (\<lambda>x. x) 0 [1] (7::nat) Map.empty (MemoryEfficientVectorStore 1 2)
     = (Inl (DimensionMismatch 2), MemoryEfficientVectorStore 1 2)"
proof -
  have d: "dimensions (MemoryEfficientVectorStore 1 2 :: nat store) = 2"
    by (simp add: MemoryEfficientVectorStore_def Let_def)
  then have h: "length [1::real] \<noteq> dimensions (MemoryEfficientVectorStore 1 2 :: nat store)"
    by simp
  from addVector_dimension_mismatch [OF h] d h show ?thesis by simp
qed

text \<open>
  C7.  For a vector of the right length, on a store whose derived fields are as the
  constructor computes them and whose dimensionality is positive: if the free-slot list is
  not empty the slot is its last element (the one \<open>pop\<close> removes) and the counter stays;
  if it is empty and the counter is below the capacity
  \<open>maxMemoryBytes div (dimensions * 4)\<close> the slot is the counter, which then advances by
  one; if it is empty and the counter has reached the capacity the call fails with the
  store-full error and changes nothing.
\<close>

theorem addVector_slot_allocation:
  assumes "store_wf st" "0 < dimensions st" "length vector = dimensions st"
  shows "(freeSlots st \<noteq> [] \<longrightarrow>
            (\<exists>st'. addVector fround now vector ident meta st = (Inr (last (freeSlots st)), st') \<and>
                   freeSlots st' = butlast (freeSlots st) \<and> nextSlot st' = nextSlot st)) \<and>
         (freeSlots st = [] \<and> nextSlot st < maxMemoryBytes st div (dimensions st * 4) \<longrightarrow>
            (\<exists>st'. addVector fround now vector ident meta st = (Inr (nextSlot st), st') \<and>
                   freeSlots st' = [] \<and> nextSlot st' = nextSlot st + 1)) \<and>
         (freeSlots st = [] \<and> maxMemoryBytes st div (dimensions st * 4) \<le> nextSlot st \<longrightarrow>
            addVector fround now vector ident meta st = (Inl StoreFull, st))"
  using assms maxVectors_pos_dims [OF assms(1,2)]
  by (simp add: addVector_def write_slot_def Let_def)

theorem addVector_slot_allocation_witness:
  "fst (addVector (\<lambda>x. x) 0 [1/2] (7::nat) Map.empty
          ((MemoryEfficientVectorStore 1 1) \<lparr> freeSlots := [5, 3], nextSlot := 6 \<rparr>)) = Inr 3 \<and>
   fst (addVector (\<lambda>x. x) 0 [1/2] (7::nat) Map.empty (MemoryEfficientVectorStore 1 1)) = Inr 0 \<and>
   addVector (\<lambda>x. x) 0 [1/2] (7::nat) Map.empty ((MemoryEfficientVectorStore 1 1) \<lparr> nextSlot := 262144 \<rparr>)
     = (Inl StoreFull, (MemoryEfficientVectorStore 1 1) \<lparr> nextSlot := 262144 \<rparr>)"
proof -
  let ?base = "MemoryEfficientVectorStore 1 1 :: nat store"
  let ?s1 = "?base \<lparr> freeSlots := [5, 3], nextSlot := 6 \<rparr>"
  let ?s3 = "?base \<lparr> nextSlot := 262144 \<rparr>"
  have f: "dimensions ?base = 1" "maxMemoryBytes ?base = 1048576"
    "freeSlots ?base = []" "nextSlot ?base = 0"
    by (simp_all add: MemoryEfficientVectorStore_def Let_def)
  have wf1: "store_wf ?s1" and wf2: "store_wf ?base" and wf3: "store_wf ?s3"
    using constructor_wf [of 1 1] by (simp_all add: store_wf_def)
  have a: "fst (addVector (\<lambda>x. x) 0 [1/2] (7::nat) Map.empty ?s1) = Inr 3"
    using addVector_slot_allocation [of ?s1 "[1/2]" "\<lambda>x. x" 0 7 Map.empty] wf1 f by auto
  have b: "fst (addVector (\<lambda>x. x) 0 [1/2] (7::nat) Map.empty ?base) = Inr 0"
    using addVector_slot_allocation [of ?base "[1/2]" "\<lambda>x. x" 0 7 Map.empty] wf2 f by auto
  have c: "addVector (\<lambda>x. x) 0 [1/2] (7::nat) Map.empty ?s3 = (Inl StoreFull, ?s3)"
    using addVector_slot_allocation [of ?s3 "[1/2]" "\<lambda>x. x" 0 7 Map.empty] wf3 f by auto
  from a b c show ?thesis by blast
qed















section \<open>Properties of the vector similarity\<close>




lemma cosineSimilarity_example:
  "cosineSimilarity exact_arith 2 (view_of [3, 4]) (view_of [3, 4]) = Num 1"
proof -
  have d: "dot exact_arith 2 (view_of [3, 4]) (view_of [3, 4]) = Num 25"
    by (simp add: dot_def view_of_def exact_arith_sel fl_add_def fl_mul_def upt_rec)
  have "sqrt 25 = (5::real)" using real_sqrt_abs [of 5] by simp
  then have m: "magnitude exact_arith 2 (view_of [3, 4]) = Num 5"
    by (simp add: magnitude_def d fl_sqrt_def exact_arith_sel)
  show ?thesis
    by (simp add: cosineSimilarity_def cosine_def m d fl_div_def fl_mul_def exact_arith_sel)
qed



section \<open>Properties of the HNSW index\<close>









section \<open>Properties of the persona memory manager\<close>











lemma rank_key_NaN_last: "rank_key a \<le> rank_key NaN"
  by (cases a) (simp_all add: less_eq_prod_def)







section \<open>Properties of DatabaseRepository\<close>

text \<open>
  C6, as stated, fails: after \<open>deletePersona\<close> of persona \<open>p1\<close> the memory record owned
  by \<open>p1\<close> is still in the metadata table, and so is the row of the persona.
\<close>

theorem deletePersona_counterexample:
  "vm_persona_id memory_of_p1 = Some ''p1'' \<and>
   vector_metadata (snd (deletePersona 5 ''p1'' example_db)) = [memory_of_p1] \<and>
   map p_id (personas (snd (deletePersona 5 ''p1'' example_db))) = [''p1'']"
  by (simp add: deletePersona_def soft_delete_row_def example_db_def memory_of_p1_def persona_p1_def)

lemma soft_delete_row_id: "p_id (soft_delete_row now ident r) = p_id r"
  by (simp add: soft_delete_row_def)

lemma soft_delete_row_other: "p_id r \<noteq> ident \<Longrightarrow> soft_delete_row now ident r = r"
  by (simp add: soft_delete_row_def)

lemma soft_delete_row_same:
  "p_id r = ident \<Longrightarrow>
     p_is_active (soft_delete_row now ident r) = 0 \<and>
     p_updated_at (soft_delete_row now ident r) = Some now"
  by (simp add: soft_delete_row_def)

lemma deletePersona_snd:
  "snd (deletePersona now ident db) = db \<lparr> personas := map (soft_delete_row now ident) (personas db) \<rparr>"
  by (simp add: deletePersona_def)

lemma soft_delete_ids: "map p_id (map (soft_delete_row now ident) rows) = map p_id rows"
  by (induction rows) (simp_all add: soft_delete_row_id)

lemma soft_delete_others:
  "filter (\<lambda>r. p_id r \<noteq> ident) (map (soft_delete_row now ident) rows)
     = filter (\<lambda>r. p_id r \<noteq> ident) rows"
  by (induction rows) (simp_all add: soft_delete_row_id soft_delete_row_other)

lemma soft_delete_inactive:
  assumes "r \<in> set (map (soft_delete_row now ident) rows)" and i: "p_id r = ident"
  shows "p_is_active r = 0 \<and> p_updated_at r = Some now"
proof -
  from assms(1) obtain r0 where r0: "r = soft_delete_row now ident r0" by auto
  with i have "p_id r0 = ident" by (simp add: soft_delete_row_id)
  from soft_delete_row_same [OF this] r0 show ?thesis by simp
qed

text \<open>
  C6, amended.  \<open>deletePersona\<close> is a soft delete: it leaves the memory records and the
  other tables as they are, keeps every persona row, does not change the rows of other
  personas, and marks the rows of the given persona inactive with the time of the update.
\<close>

theorem deletePersona_soft_delete:
  "vector_metadata (snd (deletePersona now ident db)) = vector_metadata db \<and>
   users (snd (deletePersona now ident db)) = users db \<and>
   api_keys (snd (deletePersona now ident db)) = api_keys db \<and>
   map p_id (personas (snd (deletePersona now ident db))) = map p_id (personas db) \<and>
   filter (\<lambda>r. p_id r \<noteq> ident) (personas (snd (deletePersona now ident db)))
     = filter (\<lambda>r. p_id r \<noteq> ident) (personas db) \<and>
   (\<forall>r \<in> set (personas (snd (deletePersona now ident db))).
      p_id r = ident \<longrightarrow> p_is_active r = 0 \<and> p_updated_at r = Some now)"
proof -
  let ?db' = "db \<lparr> personas := map (soft_delete_row now ident) (personas db) \<rparr>"
  have p: "personas ?db' = map (soft_delete_row now ident) (personas db)" by simp
  have c1: "vector_metadata ?db' = vector_metadata db" by simp
  have c2: "users ?db' = users db" by simp
  have c3: "api_keys ?db' = api_keys db" by simp
  have c4: "map p_id (personas ?db') = map p_id (personas db)"
    unfolding p by (rule soft_delete_ids)
  have c5: "filter (\<lambda>r. p_id r \<noteq> ident) (personas ?db') = filter (\<lambda>r. p_id r \<noteq> ident) (personas db)"
    unfolding p by (rule soft_delete_others)
  have c6: "\<forall>r \<in> set (personas ?db'). p_id r = ident \<longrightarrow> p_is_active r = 0 \<and> p_updated_at r = Some now"
    unfolding p using soft_delete_inactive by blast
  show ?thesis
    unfolding deletePersona_snd using c1 c2 c3 c4 c5 c6 by (intro conjI)
qed

theorem deletePersona_soft_delete_witness:
  "vector_metadata (snd (deletePersona 5 ''p1'' example_db)) = [memory_of_p1] \<and>
   p_is_active (hd (personas (snd (deletePersona 5 ''p1'' example_db)))) = 0"
proof -
  define db' where "db' = snd (deletePersona 5 ''p1'' example_db)"
  have v: "vector_metadata example_db = [memory_of_p1]"
    by (simp add: example_db_def)
  have h: "hd (personas db') \<in> set (personas db')"
    unfolding db'_def by (simp add: deletePersona_def example_db_def)
  have i: "p_id (hd (personas db')) = ''p1''"
    unfolding db'_def
    by (simp add: deletePersona_def soft_delete_row_def example_db_def persona_p1_def)
  note t = deletePersona_soft_delete [of 5 "''p1''" example_db, folded db'_def]
  from t have t1: "vector_metadata db' = vector_metadata example_db"
    by (rule conjunct1)
  from t have t6: "\<forall>r \<in> set (personas db'). p_id r = ''p1'' \<longrightarrow> p_is_active r = 0 \<and> p_updated_at r = Some 5"
    by (elim conjE)
  from t6 h i have "p_is_active (hd (personas db')) = 0"
    by blast
  with t1 v show ?thesis unfolding db'_def by simp
qed

lemma api_key_join_member:
  assumes "(ak, u) \<in> set (api_key_join now keyHash db)"
  shows "ak \<in> set (api_keys db) \<and> u \<in> set (users db) \<and> u_id u = ak_user_id ak \<and>
         ak_key_hash ak = keyHash \<and> ak_is_active ak = 1 \<and> u_is_active u = 1 \<and>
         (ak_expires_at ak = None \<or> (\<exists>e. ak_expires_at ak = Some e \<and> now < e))"
  using assms by (auto simp: api_key_join_def split: option.splits)

lemma getApiKeyByHash_Some:
  assumes "getApiKeyByHash json_parse now keyHash db = Inr (Some r)"
  shows "\<exists>u. (r_key r, u) \<in> set (api_key_join now keyHash db)"
proof (cases "api_key_join now keyHash db")
  case Nil
  with assms show ?thesis by (simp add: getApiKeyByHash_def)
next
  case (Cons p rest)
  obtain ak u where p: "p = (ak, u)" by (cases p)
  from assms Cons p have "r_key r = ak"
    by (auto simp: getApiKeyByHash_def split: if_splits option.splits)
  with Cons p show ?thesis by auto
qed

lemma getApiKeyByHash_None:
  assumes "api_key_join now keyHash db = []"
  shows "getApiKeyByHash json_parse now keyHash db = Inr None"
  using assms by (simp add: getApiKeyByHash_def)

text \<open>
  C8.  \<open>getApiKeyByHash\<close>, the query by which a presented key is validated, returns a key
  record only for a stored key with the given hash that is active, whose owning user is
  active and whose expiration is absent or strictly in the future.  When every stored key
  with that hash is deactivated, or expired (its expiration is not later than now), or has
  no active owner, it returns no record: an expired or deactivated key never
  authenticates.
\<close>

theorem getApiKeyByHash_validation:
  "(getApiKeyByHash json_parse now keyHash db = Inr (Some r) \<longrightarrow>
      r_key r \<in> set (api_keys db) \<and> ak_key_hash (r_key r) = keyHash \<and>
      ak_is_active (r_key r) = 1 \<and>
      (\<exists>u \<in> set (users db). u_id u = ak_user_id (r_key r) \<and> u_is_active u = 1) \<and>
      (ak_expires_at (r_key r) = None \<or> (\<exists>e. ak_expires_at (r_key r) = Some e \<and> now < e))) \<and>
   ((\<forall>ak \<in> set (api_keys db). ak_key_hash ak = keyHash \<longrightarrow>
        ak_is_active ak \<noteq> 1 \<or> (\<exists>e. ak_expires_at ak = Some e \<and> e \<le> now) \<or>
        (\<forall>u \<in> set (users db). u_id u = ak_user_id ak \<longrightarrow> u_is_active u \<noteq> 1)) \<longrightarrow>
      getApiKeyByHash json_parse now keyHash db = Inr None)"
proof (intro conjI impI)
  assume a: "getApiKeyByHash json_parse now keyHash db = Inr (Some r)"
  from getApiKeyByHash_Some [OF a] obtain u
    where "(r_key r, u) \<in> set (api_key_join now keyHash db)" ..
  note m = api_key_join_member [OF this]
  from m show "r_key r \<in> set (api_keys db)" by blast
  from m show "ak_key_hash (r_key r) = keyHash" by blast
  from m show "ak_is_active (r_key r) = 1" by blast
  from m show "\<exists>u \<in> set (users db). u_id u = ak_user_id (r_key r) \<and> u_is_active u = 1" by blast
  from m show "ak_expires_at (r_key r) = None \<or> (\<exists>e. ak_expires_at (r_key r) = Some e \<and> now < e)"
    by blast
next
  assume a: "\<forall>ak \<in> set (api_keys db). ak_key_hash ak = keyHash \<longrightarrow>
        ak_is_active ak \<noteq> 1 \<or> (\<exists>e. ak_expires_at ak = Some e \<and> e \<le> now) \<or>
        (\<forall>u \<in> set (users db). u_id u = ak_user_id ak \<longrightarrow> u_is_active u \<noteq> 1)"
  have "api_key_join now keyHash db = []"
  proof (rule ccontr)
    assume "api_key_join now keyHash db \<noteq> []"
    then obtain ak u where "(ak, u) \<in> set (api_key_join now keyHash db)"
      by (cases "api_key_join now keyHash db") auto
    from api_key_join_member [OF this] a show False by force
  qed
  then show "getApiKeyByHash json_parse now keyHash db = Inr None"
    by (rule getApiKeyByHash_None)
qed

theorem getApiKeyByHash_validation_witness:
  "(\<exists>r. getApiKeyByHash Some 1000 ''hash1'' example_db = Inr (Some (r :: string api_key_result)) \<and>
        r_key r = key_row_k1 \<and> ak_is_active (r_key r) = 1 \<and>
        ak_expires_at (r_key r) = Some 2000) \<and>
   api_keys example_db = [key_row_k1] \<and> ak_expires_at key_row_k1 = Some 2000 \<and>
   getApiKeyByHash Some 2000 ''hash1'' example_db = (Inr None :: db_error + string api_key_result option)"
proof -
  define r :: "string api_key_result" where
    "r = \<lparr> r_key = key_row_k1, r_email = ''a@b.c'', r_user_role = ''user'',
            r_permissions = Some ''[]'' \<rparr>"
  have j: "api_key_join 1000 ''hash1'' example_db = [(key_row_k1, active_user)]"
    by (simp add: api_key_join_def example_db_def key_row_k1_def active_user_def inactive_user_def)
  have h1: "getApiKeyByHash Some 1000 ''hash1'' example_db = Inr (Some r)"
    unfolding getApiKeyByHash_def j r_def
    by (simp add: key_row_k1_def active_user_def inactive_user_def)
  have h2: "\<forall>ak \<in> set (api_keys example_db). ak_key_hash ak = ''hash1'' \<longrightarrow>
        ak_is_active ak \<noteq> 1 \<or> (\<exists>e. ak_expires_at ak = Some e \<and> e \<le> 2000) \<or>
        (\<forall>u \<in> set (users example_db). u_id u = ak_user_id ak \<longrightarrow> u_is_active u \<noteq> 1)"
    by (simp add: example_db_def key_row_k1_def)
  note t1 = getApiKeyByHash_validation [where json_parse = Some and now = 1000
      and keyHash = "''hash1''" and db = example_db and r = r]
  note t2 = getApiKeyByHash_validation [where json_parse = Some and now = 2000
      and keyHash = "''hash1''" and db = example_db and r = r]
  from t1 h1 have a: "ak_is_active (r_key r) = 1" by blast
  from t2 h2 have b: "getApiKeyByHash Some 2000 ''hash1'' example_db
      = (Inr None :: db_error + string api_key_result option)" by blast
  have k: "r_key r = key_row_k1" by (simp add: r_def)
  have e: "ak_expires_at (r_key r) = Some 2000" by (simp add: r_def key_row_k1_def)
  from h1 k a e have first: "\<exists>r. getApiKeyByHash Some 1000 ''hash1'' example_db
        = Inr (Some (r :: string api_key_result)) \<and>
        r_key r = key_row_k1 \<and> ak_is_active (r_key r) = 1 \<and>
        ak_expires_at (r_key r) = Some 2000"
    by blast
  have ks: "api_keys example_db = [key_row_k1]" by (simp add: example_db_def)
  have ex: "ak_expires_at key_row_k1 = Some 2000" by (simp add: key_row_k1_def)
  from first ks ex b show ?thesis by blast
qed


section \<open>Properties of LocalTransformersProvider\<close>

lemma loadModel_configs: "modelConfigs (loadModel n p) = modelConfigs p"
  by (simp add: loadModel_def)

lemma fold_loadModel_configs: "modelConfigs (fold loadModel loads p) = modelConfigs p"
  by (induction loads arbitrary: p) (simp_all add: loadModel_configs)

lemma provider_after_configs:
  "modelConfigs (provider_after opt_model opt_dimensions loads) = standard_configs"
  by (simp add: provider_after_def fold_loadModel_configs standard_configs_def
      LocalTransformersProvider_def)

lemma get_config_cong:
  "modelConfigs p1 = modelConfigs p2 \<Longrightarrow> get_config p1 = get_config p2"
  by (intro ext) (simp add: get_config_def)

lemma generateDeterministicEmbedding_cong:
  assumes "modelConfigs p1 = modelConfigs p2"
  shows "generateDeterministicEmbedding ar p1 lower text mdl
           = generateDeterministicEmbedding ar p2 lower text mdl"
  unfolding generateDeterministicEmbedding_def get_config_cong [OF assms] by (rule refl)

lemma standard_configs_dimensions:
  "standard_configs name = Some c \<Longrightarrow> mc_dimensions c = 1536"
  by (auto simp add: standard_configs_def LocalTransformersProvider_def split: if_splits)

lemma standard_configs_default:
  "\<exists>c. standard_configs ''all-MiniLM-L6-v2'' = Some c"
  by (simp add: standard_configs_def LocalTransformersProvider_def)

lemma standard_configs_inherited:
  "name \<in> set object_prototype_names \<Longrightarrow> standard_configs name = None"
  by (auto simp add: standard_configs_def LocalTransformersProvider_def object_prototype_names_def)

lemma config_of_inherited:
  assumes "modelConfigs p = standard_configs" "mdl \<in> set object_prototype_names"
  shows "(case get_config p mdl of Some c \<Rightarrow> Some c | None \<Rightarrow> get_config p ''all-MiniLM-L6-v2'')
           = Some InheritedMember"
  using assms standard_configs_inherited [OF assms(2)] by (simp add: get_config_def)

lemma config_of_other:
  assumes "modelConfigs p = standard_configs" "mdl \<notin> set object_prototype_names"
  shows "\<exists>c. (case get_config p mdl of Some c \<Rightarrow> Some c | None \<Rightarrow> get_config p ''all-MiniLM-L6-v2'')
           = Some (OwnConfig c) \<and> mc_dimensions c = 1536"
proof (cases "standard_configs mdl")
  case None
  obtain c where c: "standard_configs ''all-MiniLM-L6-v2'' = Some c"
    using standard_configs_default by blast
  with None assms standard_configs_dimensions [OF c] show ?thesis
    by (simp add: get_config_def)
next
  case (Some c)
  with assms standard_configs_dimensions [OF Some] show ?thesis
    by (simp add: get_config_def)
qed

lemma add_at_full:
  assumes "full d a" "idx < d"
  shows "full d (add_at ar a (Some idx) v)"
proof -
  have "Suc idx - length (elems a) = 0" using assms by (simp add: full_def)
  then have "add_at ar a (Some idx) v
      = a \<lparr> elems := (elems a)[idx := Some (fl_add ar (to_number (elems a ! idx)) v)] \<rparr>"
    by (simp add: Let_def)
  moreover have "None \<notin> set ((elems a)[idx := Some x])" for x
    using assms by (auto simp add: full_def dest!: set_update_subset_insert [THEN subsetD])
  ultimately show ?thesis using assms by (simp add: full_def)
qed

lemma js_mod_less:
  assumes "0 < d"
  shows "\<exists>idx. js_mod x (Some d) = Some idx \<and> idx < d"
proof -
  have "0 \<le> x mod int d" "x mod int d < int d" using assms by simp_all
  then have "nat (x mod int d) < d" by linarith
  with assms show ?thesis by simp
qed

lemma add_at_mod_full:
  assumes "full d a" "0 < d"
  shows "full d (add_at ar a (js_mod x (Some d)) v)"
proof -
  obtain idx where "js_mod x (Some d) = Some idx" "idx < d"
    using js_mod_less [OF assms(2)] by blast
  then show ?thesis using add_at_full [OF assms(1)] by simp
qed

lemma fold_full:
  assumes "\<And>i a. full d a \<Longrightarrow> full d (f i a)"
  shows "full d a \<Longrightarrow> full d (fold f xs a)"
  by (induction xs arbitrary: a) (simp_all add: assms)

lemma word_features_full:
  assumes "full d a" "0 < d"
  shows "full d (word_features ar (Some d) iw a)"
  unfolding word_features_def Let_def
  by (rule fold_full [OF _ assms(1)]) (rule add_at_mod_full [OF _ assms(2)])

lemma bigram_features_full:
  assumes "full d a" "0 < d"
  shows "full d (bigram_features ar (Some d) chars a)"
  unfolding bigram_features_def Let_def
  by (rule fold_full [OF _ assms(1)]) (rule add_at_mod_full [OF _ assms(2)])

lemma positional_features_full:
  assumes "full d a"
  shows "full d (positional_features ar (Some d) n w a)"
proof -
  have "full d (fold (positional_step ar d n w) xs a)" if "set xs \<subseteq> {0..<d}" for xs
    using that assms
  proof (induction xs arbitrary: a)
    case Nil
    then show ?case by simp
  next
    case (Cons i xs)
    then have "i < d" by simp
    then have "full d (positional_step ar d n w i a)"
      unfolding positional_step_def Let_def
      by (intro add_at_full Cons.prems(2))
    then show ?case using Cons by simp
  qed
  then show ?thesis by (simp add: positional_features_def)
qed

lemma seeded_array_full: "full d (seeded_array ar (Some d) seed)"
proof -
  have "length (seed_values ar n s) = n" for n s
    by (induction n arbitrary: s) (simp_all add: Let_def)
  then show ?thesis by (auto simp add: full_def seeded_array_def)
qed

lemma feature_passes_full:
  assumes "full d a" "0 < d"
  shows "full d (feature_passes ar (Some d) text lower a)"
  unfolding feature_passes_def Let_def
  by (intro positional_features_full bigram_features_full fold_full [OF _ assms(1)]
      word_features_full assms(2))

lemma full_elems:
  assumes "full d a"
  shows "\<exists>es. a = \<lparr> elems = map Some es, nan_property = False \<rparr> \<and> length es = d"
proof -
  have "elems a = map Some (map the (elems a))"
    using assms by (auto simp add: full_def intro!: nth_equalityI) (metis nth_mem option.collapse)
  moreover have "length (map the (elems a)) = d" using assms by (simp add: full_def)
  moreover have "a = \<lparr> elems = elems a, nan_property = nan_property a \<rparr>" by simp
  ultimately show ?thesis using assms unfolding full_def by metis
qed

lemma seed_values_iterate:
  "seed_values ar n seed = map (\<lambda>i. seed_entry ar ((next_seed ^^ Suc i) seed)) [0..<n]"
proof (induction n arbitrary: seed)
  case 0
  show ?case by simp
next
  case (Suc n)
  have "map (\<lambda>i. seed_entry ar ((next_seed ^^ Suc i) seed)) [0..<Suc n]
      = seed_entry ar (next_seed seed)
          # map (\<lambda>i. seed_entry ar ((next_seed ^^ Suc i) (next_seed seed))) [0..<n]"
    by (simp add: upt_conv_Cons map_Suc_upt [symmetric] funpow_swap1 del: upt_Suc)
  then show ?case by (simp add: Suc.IH Let_def del: upt_Suc)
qed

lemma toInt32_range: "- (2 ^ 31) \<le> toInt32 x \<and> toInt32 x < 2 ^ 31"
  unfolding toInt32_def
  using sint_ge [of "word_of_int x :: 32 word"] sint_lt [of "word_of_int x :: 32 word"]
  by simp

lemma fold_hash_step_range: "- (2 ^ 31) \<le> fold hash_step str 0 \<and> fold hash_step str 0 < 2 ^ 31"
proof (induction str rule: rev_induct)
  case Nil
  show ?case by simp
next
  case (snoc c str)
  show ?case using toInt32_range by (simp add: hash_step_def)
qed

lemma hashString_range: "0 \<le> hashString str \<and> hashString str \<le> 2 ^ 31"
  using fold_hash_step_range [of str] by (simp add: hashString_def abs_le_iff)

lemma fold_word_features_undefined: "fold (word_features ar None) iws a = a"
  by (induction iws) (simp_all add: word_features_def)

lemma fold_set_nan:
  "fold (\<lambda>i emb. add_at ar emb None (v i)) xs a
     = (if xs = [] then a else a \<lparr> nan_property := True \<rparr>)"
  by (induction xs arbitrary: a) simp_all

lemma bigram_features_undefined:
  "bigram_features ar None chars a
     = (if length chars < 2 then a else a \<lparr> nan_property := True \<rparr>)"
proof -
  have "bigram_features ar None chars a
      = fold (\<lambda>i emb. add_at ar emb None (literal ar (1 / 100))) [0..<length chars - 1] a"
    by (simp add: bigram_features_def Let_def)
  also have "\<dots> = (if [0..<length chars - 1] = [] then a else a \<lparr> nan_property := True \<rparr>)"
    by (rule fold_set_nan)
  also have "\<dots> = (if length chars < 2 then a else a \<lparr> nan_property := True \<rparr>)"
    by auto
  finally show ?thesis .
qed

lemma feature_passes_undefined:
  "feature_passes ar None text lower \<lparr> elems = [None], nan_property = False \<rparr>
     = \<lparr> elems = [None], nan_property = (2 \<le> length lower) \<rparr>"
  by (simp add: feature_passes_def Let_def fold_word_features_undefined
      bigram_features_undefined positional_features_def)

lemma generateDeterministicEmbedding_inherited:
  assumes "modelConfigs p = standard_configs" "mdl \<in> set object_prototype_names"
  shows "generateDeterministicEmbedding ar p lower text mdl
           = Inr \<lparr> elems = [None], nan_property = (2 \<le> length (lower text)) \<rparr>"
  unfolding generateDeterministicEmbedding_def config_of_inherited [OF assms]
  by (simp add: seeded_array_def feature_passes_undefined)

lemma generateDeterministicEmbedding_other:
  assumes "modelConfigs p = standard_configs" "mdl \<notin> set object_prototype_names"
  shows "generateDeterministicEmbedding ar p lower text mdl
           = Inr (feature_passes ar (Some 1536) text (lower text)
                    (seeded_array ar (Some 1536) (hashString text)))"
proof -
  obtain c where c: "(case get_config p mdl of Some c \<Rightarrow> Some c
      | None \<Rightarrow> get_config p ''all-MiniLM-L6-v2'') = Some (OwnConfig c)"
    and d: "mc_dimensions c = 1536"
    using config_of_other [OF assms] by blast
  show ?thesis unfolding generateDeterministicEmbedding_def c by (simp add: d Let_def)
qed

lemma generateEmbedding_vector:
  assumes "modelConfigs p1 = modelConfigs p2"
    and "(case eo_model options of None \<Rightarrow> model p1 | Some m \<Rightarrow> m)
           = (case eo_model options of None \<Rightarrow> model p2 | Some m \<Rightarrow> m)"
  shows "map_sum id er_vector (generateEmbedding ar s1 e1 p1 lower text options)
           = map_sum id er_vector (generateEmbedding ar s2 e2 p2 lower text options)"
  unfolding generateEmbedding_def Let_def assms(2)
    generateDeterministicEmbedding_cong [OF assms(1)]
  by (simp split: sum.split)

lemma generateEmbedding_time:
  "generateEmbedding ar s e p lower text options = Inr r \<Longrightarrow> er_processingTime r = e - s"
  by (auto simp add: generateEmbedding_def Let_def split: if_splits sum.splits)

text \<open>
  C9.  For equal text and equal model name, \<open>generateDeterministicEmbedding\<close> returns the
  same array on every provider the program can have, whatever the options it was
  constructed with and the models loaded since.  For a model name that is not a property
  inherited from \<open>Object.prototype\<close> the array has 1536 defined entries, and it is the
  result of the three feature passes on the array whose entry \<open>i\<close> is
  \<open>(s\<^sub>i / 233280 - 0.5) \<times> 0.1\<close>, \<open>s\<^sub>i\<close> being the \<open>i + 1\<close>-th iterate of
  \<open>s \<mapsto> (s \<times> 9301 + 49297) mod 233280\<close> on \<open>hashString(text)\<close>, a whole number between
  0 and \<open>2\<^sup>3\<^sup>1\<close>: the seed comes from the hash of the text alone.  For an inherited
  name such as \<open>constructor\<close> the array is \<open>[undefined]\<close>.  \<open>generateEmbedding\<close>, which reads
  the clock, returns the same vector on any two providers and at any times when the model
  used is the same; only its \<open>processingTime\<close> is the difference of the clock readings.
\<close>

theorem generateDeterministicEmbedding_deterministic:
  "generateDeterministicEmbedding ar (provider_after model1 dims1 loads1) toLowerCase str mdl
     = generateDeterministicEmbedding ar (provider_after model2 dims2 loads2) toLowerCase str mdl \<and>
   (mdl \<notin> set object_prototype_names \<longrightarrow>
      generateDeterministicEmbedding ar (provider_after model1 dims1 loads1) toLowerCase str mdl
        = Inr (feature_passes ar (Some 1536) str (toLowerCase str)
                 \<lparr> elems = map (\<lambda>i. Some (seed_entry ar ((next_seed ^^ Suc i) (hashString str))))
                             [0..<1536],
                   nan_property = False \<rparr>) \<and>
      (\<exists>es. generateDeterministicEmbedding ar (provider_after model1 dims1 loads1) toLowerCase
               str mdl = Inr \<lparr> elems = map Some es, nan_property = False \<rparr> \<and>
            length es = 1536)) \<and>
   (mdl \<in> set object_prototype_names \<longrightarrow>
      generateDeterministicEmbedding ar (provider_after model1 dims1 loads1) toLowerCase str mdl
        = Inr \<lparr> elems = [None], nan_property = (2 \<le> length (toLowerCase str)) \<rparr>) \<and>
   0 \<le> hashString str \<and> hashString str \<le> 2 ^ 31 \<and>
   ((case eo_model opts of None \<Rightarrow> model (provider_after model1 dims1 loads1) | Some m \<Rightarrow> m)
      = (case eo_model opts of None \<Rightarrow> model (provider_after model2 dims2 loads2) | Some m \<Rightarrow> m) \<longrightarrow>
    map_sum id er_vector
      (generateEmbedding ar start1 end1 (provider_after model1 dims1 loads1) toLowerCase str opts)
      = map_sum id er_vector
          (generateEmbedding ar start2 end2 (provider_after model2 dims2 loads2) toLowerCase str
             opts)) \<and>
   (generateEmbedding ar start1 end1 (provider_after model1 dims1 loads1) toLowerCase str opts
      = Inr r \<longrightarrow> er_processingTime r = end1 - start1)"
proof -
  define p1 where "p1 = provider_after model1 dims1 loads1"
  define p2 where "p2 = provider_after model2 dims2 loads2"
  have c1: "modelConfigs p1 = standard_configs" and c2: "modelConfigs p2 = standard_configs"
    by (simp_all add: p1_def p2_def provider_after_configs)
  have same: "generateDeterministicEmbedding ar p1 toLowerCase str mdl
     = generateDeterministicEmbedding ar p2 toLowerCase str mdl"
    by (rule generateDeterministicEmbedding_cong) (simp add: c1 c2)
  have seeds: "seeded_array ar (Some 1536) (hashString str)
      = \<lparr> elems = map (\<lambda>i. Some (seed_entry ar ((next_seed ^^ Suc i) (hashString str))))
                             [0..<1536],
          nan_property = False \<rparr>"
    by (simp add: seeded_array_def seed_values_iterate comp_def del: upt_Suc funpow.simps)
  have own: "generateDeterministicEmbedding ar p1 toLowerCase str mdl
        = Inr (feature_passes ar (Some 1536) str (toLowerCase str)
                 \<lparr> elems = map (\<lambda>i. Some (seed_entry ar ((next_seed ^^ Suc i) (hashString str))))
                             [0..<1536],
                   nan_property = False \<rparr>)"
    if "mdl \<notin> set object_prototype_names"
    using generateDeterministicEmbedding_other [OF c1 that] by (simp only: seeds)
  have shape: "\<exists>es. generateDeterministicEmbedding ar p1 toLowerCase str mdl
        = Inr \<lparr> elems = map Some es, nan_property = False \<rparr> \<and> length es = 1536"
    if "mdl \<notin> set object_prototype_names"
  proof -
    have "full 1536 (feature_passes ar (Some 1536) str (toLowerCase str)
                    (seeded_array ar (Some 1536) (hashString str)))"
      by (intro feature_passes_full seeded_array_full) simp
    from full_elems [OF this] show ?thesis
      using generateDeterministicEmbedding_other [OF c1 that] by auto
  qed
  have inh: "generateDeterministicEmbedding ar p1 toLowerCase str mdl
        = Inr \<lparr> elems = [None], nan_property = (2 \<le> length (toLowerCase str)) \<rparr>"
    if "mdl \<in> set object_prototype_names"
    by (rule generateDeterministicEmbedding_inherited [OF c1 that])
  have vec: "map_sum id er_vector (generateEmbedding ar start1 end1 p1 toLowerCase str opts)
      = map_sum id er_vector (generateEmbedding ar start2 end2 p2 toLowerCase str opts)"
    if "(case eo_model opts of None \<Rightarrow> model p1 | Some m \<Rightarrow> m)
      = (case eo_model opts of None \<Rightarrow> model p2 | Some m \<Rightarrow> m)"
    by (rule generateEmbedding_vector [OF _ that]) (simp add: c1 c2)
  have tm: "er_processingTime r = end1 - start1"
    if "generateEmbedding ar start1 end1 p1 toLowerCase str opts = Inr r"
    by (rule generateEmbedding_time [OF that])
  from same own shape inh hashString_range [where str = str] vec tm
  show ?thesis unfolding p1_def p2_def by blast
qed

theorem generateDeterministicEmbedding_deterministic_witness:
  "''all-MiniLM-L6-v2'' \<notin> set object_prototype_names \<and>
   (\<exists>es. generateDeterministicEmbedding exact_arith (provider_after None None []) (\<lambda>s. s)
            [97, 98] ''all-MiniLM-L6-v2'' = Inr \<lparr> elems = map Some es, nan_property = False \<rparr> \<and>
         length es = 1536) \<and>
   generateDeterministicEmbedding exact_arith (provider_after None None []) (\<lambda>s. s)
     [97, 98] ''all-MiniLM-L6-v2''
     = generateDeterministicEmbedding exact_arith
         (provider_after (Some ''all-mpnet-base-v2'') (Some 768) [''openai-compatible-1536''])
         (\<lambda>s. s) [97, 98] ''all-MiniLM-L6-v2'' \<and>
   ''constructor'' \<in> set object_prototype_names \<and>
   generateDeterministicEmbedding exact_arith (provider_after None None []) (\<lambda>s. s)
     [97, 98] ''constructor'' = Inr \<lparr> elems = [None], nan_property = True \<rparr> \<and>
   (\<exists>r. generateEmbedding exact_arith 10 25 (provider_after None None []) (\<lambda>s. s) [97, 98]
           example_options = Inr r \<and>
        er_vector r = \<lparr> elems = [None], nan_property = True \<rparr> \<and> er_processingTime r = 15) \<and>
   map_sum id er_vector
     (generateEmbedding exact_arith 10 25 (provider_after None None []) (\<lambda>s. s) [97, 98]
        example_options)
     = map_sum id er_vector
         (generateEmbedding exact_arith 100 300
            (provider_after (Some ''all-mpnet-base-v2'') (Some 768) [''openai-compatible-1536''])
            (\<lambda>s. s) [97, 98] example_options)"
proof -
  define p1 where "p1 = provider_after None None []"
  define p2 where
    "p2 = provider_after (Some ''all-mpnet-base-v2'') (Some 768) [''openai-compatible-1536'']"
  define r where
    "r = \<lparr> er_vector = \<lparr> elems = [None], nan_property = True \<rparr>, er_model = ''constructor'',
           er_promptTokens = 1, er_totalTokens = 1, er_provider = ''local-transformers'',
           er_textLength = 2, er_truncated = False, er_processingTime = 15 \<rparr>"
  note t = generateDeterministicEmbedding_deterministic
    [where ar = exact_arith and ?model1.0 = None and ?dims1.0 = None and ?loads1.0 = "[]"
       and ?model2.0 = "Some ''all-mpnet-base-v2''" and ?dims2.0 = "Some 768"
       and ?loads2.0 = "[''openai-compatible-1536'']" and toLowerCase = "\<lambda>s. s"
       and str = "[97, 98]" and mdl = "''all-MiniLM-L6-v2''" and opts = example_options
       and ?start1.0 = 10 and ?end1.0 = 25 and ?start2.0 = 100 and ?end2.0 = 300 and r = r,
     folded p1_def p2_def]
  note u = generateDeterministicEmbedding_deterministic
    [where ar = exact_arith and ?model1.0 = None and ?dims1.0 = None and ?loads1.0 = "[]"
       and ?model2.0 = "Some ''all-mpnet-base-v2''" and ?dims2.0 = "Some 768"
       and ?loads2.0 = "[''openai-compatible-1536'']" and toLowerCase = "\<lambda>s. s"
       and str = "[97, 98]" and mdl = "''constructor''" and opts = example_options
       and ?start1.0 = 10 and ?end1.0 = 25 and ?start2.0 = 100 and ?end2.0 = 300 and r = r,
     folded p1_def p2_def]
  have n1: "''all-MiniLM-L6-v2'' \<notin> set object_prototype_names"
    by (simp add: object_prototype_names_def)
  have n2: "''constructor'' \<in> set object_prototype_names"
    by (simp add: object_prototype_names_def)
  have a: "\<exists>es. generateDeterministicEmbedding exact_arith p1 (\<lambda>s. s)
            [97, 98] ''all-MiniLM-L6-v2'' = Inr \<lparr> elems = map Some es, nan_property = False \<rparr> \<and>
         length es = 1536"
    using t n1 by blast
  have b: "generateDeterministicEmbedding exact_arith p1 (\<lambda>s. s) [97, 98] ''all-MiniLM-L6-v2''
     = generateDeterministicEmbedding exact_arith p2 (\<lambda>s. s) [97, 98] ''all-MiniLM-L6-v2''"
    using t by (rule conjunct1)
  have "generateDeterministicEmbedding exact_arith p1 (\<lambda>s. s) [97, 98] ''constructor''
      = Inr \<lparr> elems = [None], nan_property = (2 \<le> length [97 :: 16 word, 98]) \<rparr>"
    using u n2 by blast
  then have c: "generateDeterministicEmbedding exact_arith p1 (\<lambda>s. s) [97, 98] ''constructor''
      = Inr \<lparr> elems = [None], nan_property = True \<rparr>"
    by simp
  have run: "generateEmbedding exact_arith 10 25 p1 (\<lambda>s. s) [97, 98] example_options = Inr r"
    by (simp add: generateEmbedding_def example_options_def c r_def estimateTokens_def)
  have tm: "er_processingTime r = 25 - 10"
    using u run by blast
  have d: "\<exists>r. generateEmbedding exact_arith 10 25 p1 (\<lambda>s. s) [97, 98] example_options = Inr r \<and>
        er_vector r = \<lparr> elems = [None], nan_property = True \<rparr> \<and> er_processingTime r = 15"
    using run tm by (intro exI [of _ r]) (simp add: r_def)
  have eq: "(case eo_model example_options of None \<Rightarrow> model p1 | Some m \<Rightarrow> m)
      = (case eo_model example_options of None \<Rightarrow> model p2 | Some m \<Rightarrow> m)"
    by (simp add: example_options_def)
  have e: "map_sum id er_vector
     (generateEmbedding exact_arith 10 25 p1 (\<lambda>s. s) [97, 98] example_options)
     = map_sum id er_vector
         (generateEmbedding exact_arith 100 300 p2 (\<lambda>s. s) [97, 98] example_options)"
    using u eq by blast
  show ?thesis using n1 a b n2 c d e unfolding p1_def p2_def by (intro conjI)
qed


end
